theory Spec2Isabelle
  imports Main "HOL-Library.Sublist"
begin

section \<open>The dashboard script \<^verbatim>\<open>manual-testing-sandbox/app.py\<close>\<close>

text \<open>
  The script is one straight-line sequence of calls into three libraries (the page
  framework \<^verbatim>\<open>st\<close>, the random source \<^verbatim>\<open>np.random\<close>, the table constructor
  \<^verbatim>\<open>pd.DataFrame\<close>). The libraries are not part of the repository. They appear here as
  a host: a record of what the user did (slider position, button click), of the numbers
  the random source hands out, and of the exception, if any, with which a call fails.
  Every call that completes is appended to a trace; the displayed page is the trace
  restricted to the calls that put an element on the page.
\<close>

subsection \<open>Values\<close>

text \<open>
  A two-dimensional array as \<^verbatim>\<open>np.random.randn(d0, d1)\<close> returns it: its shape is kept
  beside the rows, so that an array of zero rows still has its number of columns.
\<close>

record 'a ndarray =
  shape :: "nat \<times> nat"
  items :: "'a list list"

text \<open>The table \<^verbatim>\<open>pd.DataFrame(array, columns=...)\<close>: column labels, row index, rows.\<close>

record 'a frame =
  columns :: "string list"
  index :: "nat list"
  rows :: "'a list list"

text \<open>
  The library calls of the script, with their arguments. String literals of the source
  are kept as the UTF-8 bytes of the source file.
\<close>

datatype 'a call =
    Title string
  | SidebarHeader string
  | SidebarSlider string int int int
  | Header string
  | Write string
  | Randn int int
  | DataFrame "'a ndarray" "string list"
  | Subheader string
  | Dataframe "'a frame"
  | LineChart "'a frame"
  | AreaChart "'a frame"
  | Button string
  | ExperimentalRerun

datatype exn = ValueError | HostError string

text \<open>
  Why a pass stops before its last statement: an exception, or the re-run request of
  \<^verbatim>\<open>st.experimental_rerun()\<close>, which does not return to the script.
\<close>

datatype stop = Raise exn | Rerun

record 'a host =
  selected :: "int option"
  clicked :: bool
  normal :: "nat \<Rightarrow> nat \<Rightarrow> 'a"
  fault :: "'a call \<Rightarrow> exn option"

record 'a world =
  trace :: "'a call list"
  session_state :: "string \<rightharpoonup> string"

type_synonym ('a, 'z, 'r) script =
  "('a, 'z) world_scheme \<Rightarrow> ('a, 'z) world_scheme \<times> (stop + 'r)"

subsection \<open>Sequencing and the library calls\<close>

definition finished :: "('a, 'z, unit) script" where
  "finished = (\<lambda>w. (w, Inr ()))"

definition and_then ::
  "('a, 'z, 'r) script \<Rightarrow> ('r \<Rightarrow> ('a, 'z, 's) script) \<Rightarrow> ('a, 'z, 's) script" where
  "and_then m f = (\<lambda>w. case m w of
       (w', Inl s) \<Rightarrow> (w', Inl s)
     | (w', Inr r) \<Rightarrow> f r w')"

text \<open>
  The argument checks of the libraries: \<^verbatim>\<open>randn\<close> refuses a negative dimension,
  \<^verbatim>\<open>DataFrame\<close> refuses column labels whose number is not the array's second dimension.
\<close>

fun validate :: "'a call \<Rightarrow> exn option" where
  "validate (Randn d0 d1) = (if d0 < 0 \<or> d1 < 0 then Some ValueError else None)"
| "validate (DataFrame a cols) =
     (if snd (shape a) \<noteq> length cols then Some ValueError else None)"
| "validate _ = None"

definition raises :: "('a, 'y) host_scheme \<Rightarrow> 'a call \<Rightarrow> exn option" where
  "raises h c = (case validate c of Some e \<Rightarrow> Some e | None \<Rightarrow> fault h c)"

definition record_call :: "'a call \<Rightarrow> ('a, 'z) world_scheme \<Rightarrow> ('a, 'z) world_scheme" where
  "record_call c w = w\<lparr>trace := trace w @ [c]\<rparr>"

definition invoke :: "('a, 'y) host_scheme \<Rightarrow> 'a call \<Rightarrow> 'r \<Rightarrow> ('a, 'z, 'r) script" where
  "invoke h c r = (\<lambda>w. case raises h c of
       Some e \<Rightarrow> (w, Inl (Raise e))
     | None \<Rightarrow> (record_call c w, Inr r))"

definition st_title :: "('a, 'y) host_scheme \<Rightarrow> string \<Rightarrow> ('a, 'z, unit) script" where
  "st_title h body = invoke h (Title body) ()"

definition st_sidebar_header :: "('a, 'y) host_scheme \<Rightarrow> string \<Rightarrow> ('a, 'z, unit) script" where
  "st_sidebar_header h body = invoke h (SidebarHeader body) ()"

text \<open>
  The slider returns the position the user chose, and \<^verbatim>\<open>value\<close> while the user has not
  touched it.
\<close>

definition slider_value :: "('a, 'y) host_scheme \<Rightarrow> int \<Rightarrow> int" where
  "slider_value h dflt = (case selected h of None \<Rightarrow> dflt | Some v \<Rightarrow> v)"

definition st_sidebar_slider ::
  "('a, 'y) host_scheme \<Rightarrow> string \<Rightarrow> int \<Rightarrow> int \<Rightarrow> int \<Rightarrow> ('a, 'z, int) script" where
  "st_sidebar_slider h label min_value max_value dflt =
     invoke h (SidebarSlider label min_value max_value dflt) (slider_value h dflt)"

definition st_header :: "('a, 'y) host_scheme \<Rightarrow> string \<Rightarrow> ('a, 'z, unit) script" where
  "st_header h body = invoke h (Header body) ()"

definition st_write :: "('a, 'y) host_scheme \<Rightarrow> string \<Rightarrow> ('a, 'z, unit) script" where
  "st_write h body = invoke h (Write body) ()"

definition st_subheader :: "('a, 'y) host_scheme \<Rightarrow> string \<Rightarrow> ('a, 'z, unit) script" where
  "st_subheader h body = invoke h (Subheader body) ()"

definition randn_array :: "('a, 'y) host_scheme \<Rightarrow> int \<Rightarrow> int \<Rightarrow> 'a ndarray" where
  "randn_array h d0 d1 =
     \<lparr>shape = (nat d0, nat d1),
      items = map (\<lambda>i. map (normal h i) [0..<nat d1]) [0..<nat d0]\<rparr>"

definition np_random_randn ::
  "('a, 'y) host_scheme \<Rightarrow> int \<Rightarrow> int \<Rightarrow> ('a, 'z, 'a ndarray) script" where
  "np_random_randn h d0 d1 = invoke h (Randn d0 d1) (randn_array h d0 d1)"

definition make_frame :: "'a ndarray \<Rightarrow> string list \<Rightarrow> 'a frame" where
  "make_frame a cols = \<lparr>columns = cols, index = [0..<fst (shape a)], rows = items a\<rparr>"

definition pd_DataFrame ::
  "('a, 'y) host_scheme \<Rightarrow> 'a ndarray \<Rightarrow> string list \<Rightarrow> ('a, 'z, 'a frame) script" where
  "pd_DataFrame h a cols = invoke h (DataFrame a cols) (make_frame a cols)"

definition st_dataframe :: "('a, 'y) host_scheme \<Rightarrow> 'a frame \<Rightarrow> ('a, 'z, unit) script" where
  "st_dataframe h d = invoke h (Dataframe d) ()"

definition st_line_chart :: "('a, 'y) host_scheme \<Rightarrow> 'a frame \<Rightarrow> ('a, 'z, unit) script" where
  "st_line_chart h d = invoke h (LineChart d) ()"

definition st_area_chart :: "('a, 'y) host_scheme \<Rightarrow> 'a frame \<Rightarrow> ('a, 'z, unit) script" where
  "st_area_chart h d = invoke h (AreaChart d) ()"

definition st_button :: "('a, 'y) host_scheme \<Rightarrow> string \<Rightarrow> ('a, 'z, bool) script" where
  "st_button h label = invoke h (Button label) (clicked h)"

definition st_experimental_rerun :: "('a, 'y) host_scheme \<Rightarrow> ('a, 'z, unit) script" where
  "st_experimental_rerun h = (\<lambda>w. case raises h ExperimentalRerun of
       Some e \<Rightarrow> (w, Inl (Raise e))
     | None \<Rightarrow> (record_call ExperimentalRerun w, Inl Rerun))"

subsection \<open>Formatting an integer, as the f-string does\<close>

definition digit_char :: "nat \<Rightarrow> char" where
  "digit_char d = char_of (48 + d)"

fun str_nat :: "nat \<Rightarrow> string" where
  "str_nat n =
     (if n < 10 then [digit_char n] else str_nat (n div 10) @ [digit_char (n mod 10)])"

declare str_nat.simps [simp del]

definition str_int :: "int \<Rightarrow> string" where
  "str_int i = (if i < 0 then CHR ''-'' # str_nat (nat (- i)) else str_nat (nat i))"

subsection \<open>The string literals of the script\<close>

text \<open>Line 6: "Databricks Apps", five kana and one kanji, "Streamlit", three kana.\<close>

definition title_text :: string where
  "title_text = ''Databricks Apps'' @
     [CHR 0xE4, CHR 0xB8, CHR 0x8A, CHR 0xE3, CHR 0x81, CHR 0xAE, CHR 0xE3, CHR 0x82, CHR 0xB7,
      CHR 0xE3, CHR 0x83, CHR 0xB3, CHR 0xE3, CHR 0x83, CHR 0x97, CHR 0xE3, CHR 0x83, CHR 0xAB,
      CHR 0xE3, CHR 0x81, CHR 0xAA] @ ''Streamlit'' @
     [CHR 0xE3, CHR 0x82, CHR 0xA2, CHR 0xE3, CHR 0x83, CHR 0x97, CHR 0xE3, CHR 0x83, CHR 0xAA]"

text \<open>Line 9, the sidebar header.\<close>

definition sidebar_header_text :: string where
  "sidebar_header_text =
     [CHR 0xE3, CHR 0x83, CHR 0x91, CHR 0xE3, CHR 0x83, CHR 0xA9, CHR 0xE3, CHR 0x83, CHR 0xA1,
      CHR 0xE3, CHR 0x83, CHR 0xBC, CHR 0xE3, CHR 0x82, CHR 0xBF, CHR 0xE8, CHR 0xA8, CHR 0xAD,
      CHR 0xE5, CHR 0xAE, CHR 0x9A]"

text \<open>Line 10, the label of the slider.\<close>

definition slider_label :: string where
  "slider_label =
     [CHR 0xE6, CHR 0x95, CHR 0xB0, CHR 0xE5, CHR 0x80, CHR 0xA4, CHR 0xE3, CHR 0x82, CHR 0x92,
      CHR 0xE9, CHR 0x81, CHR 0xB8, CHR 0xE6, CHR 0x8A, CHR 0x9E, CHR 0xE3, CHR 0x81, CHR 0x97,
      CHR 0xE3, CHR 0x81, CHR 0xA6, CHR 0xE3, CHR 0x81, CHR 0x8F, CHR 0xE3, CHR 0x81, CHR 0xA0,
      CHR 0xE3, CHR 0x81, CHR 0x95, CHR 0xE3, CHR 0x81, CHR 0x84]"

text \<open>Line 13, the header of the main area.\<close>

definition header_text :: string where
  "header_text =
     [CHR 0xE3, CHR 0x82, CHR 0xB5, CHR 0xE3, CHR 0x83, CHR 0xB3, CHR 0xE3, CHR 0x83, CHR 0x97,
      CHR 0xE3, CHR 0x83, CHR 0xAB, CHR 0xE3, CHR 0x83, CHR 0x87, CHR 0xE3, CHR 0x83, CHR 0xBC,
      CHR 0xE3, CHR 0x82, CHR 0xBF, CHR 0xE8, CHR 0xA1, CHR 0xA8, CHR 0xE7, CHR 0xA4, CHR 0xBA]"

text \<open>Line 14, the f-string up to its replacement field: six characters, a colon, a space.\<close>

definition echo_prefix :: string where
  "echo_prefix =
     [CHR 0xE9, CHR 0x81, CHR 0xB8, CHR 0xE6, CHR 0x8A, CHR 0x9E, CHR 0xE3, CHR 0x81, CHR 0x95,
      CHR 0xE3, CHR 0x82, CHR 0x8C, CHR 0xE3, CHR 0x81, CHR 0x9F, CHR 0xE5, CHR 0x80, CHR 0xA4] @
     '': ''"

text \<open>Lines 22, 25 and 28, the captions of the data grid and of the two charts.\<close>

definition table_caption :: string where
  "table_caption =
     [CHR 0xE3, CHR 0x83, CHR 0x87, CHR 0xE3, CHR 0x83, CHR 0xBC, CHR 0xE3, CHR 0x82, CHR 0xBF,
      CHR 0xE3, CHR 0x83, CHR 0x86, CHR 0xE3, CHR 0x83, CHR 0xBC, CHR 0xE3, CHR 0x83, CHR 0x96,
      CHR 0xE3, CHR 0x83, CHR 0xAB]"

definition line_caption :: string where
  "line_caption =
     [CHR 0xE3, CHR 0x83, CHR 0xA9, CHR 0xE3, CHR 0x82, CHR 0xA4, CHR 0xE3, CHR 0x83, CHR 0xB3,
      CHR 0xE3, CHR 0x83, CHR 0x81, CHR 0xE3, CHR 0x83, CHR 0xA3, CHR 0xE3, CHR 0x83, CHR 0xBC,
      CHR 0xE3, CHR 0x83, CHR 0x88]"

definition area_caption :: string where
  "area_caption =
     [CHR 0xE3, CHR 0x82, CHR 0xA8, CHR 0xE3, CHR 0x83, CHR 0xAA, CHR 0xE3, CHR 0x82, CHR 0xA2,
      CHR 0xE3, CHR 0x83, CHR 0x81, CHR 0xE3, CHR 0x83, CHR 0xA3, CHR 0xE3, CHR 0x83, CHR 0xBC,
      CHR 0xE3, CHR 0x83, CHR 0x88]"

text \<open>Line 32, the label of the button.\<close>

definition button_label :: string where
  "button_label =
     [CHR 0xE6, CHR 0x96, CHR 0xB0, CHR 0xE3, CHR 0x81, CHR 0x97, CHR 0xE3, CHR 0x81, CHR 0x84,
      CHR 0xE3, CHR 0x83, CHR 0x87, CHR 0xE3, CHR 0x83, CHR 0xBC, CHR 0xE3, CHR 0x82, CHR 0xBF,
      CHR 0xE3, CHR 0x82, CHR 0x92, CHR 0xE7, CHR 0x94, CHR 0x9F, CHR 0xE6, CHR 0x88, CHR 0x90]"

subsection \<open>The script\<close>

definition app :: "('a, 'y) host_scheme \<Rightarrow> ('a, 'z, unit) script" where
  "app h =
     and_then (st_title h title_text) (\<lambda>_.
     and_then (st_sidebar_header h sidebar_header_text) (\<lambda>_.
     and_then (st_sidebar_slider h slider_label 0 100 50) (\<lambda>number.
     and_then (st_header h header_text) (\<lambda>_.
     and_then (st_write h (echo_prefix @ str_int number)) (\<lambda>_.
     and_then (np_random_randn h number 3) (\<lambda>drawn.
     and_then (pd_DataFrame h drawn [''A'', ''B'', ''C'']) (\<lambda>data.
     and_then (st_subheader h table_caption) (\<lambda>_.
     and_then (st_dataframe h data) (\<lambda>_.
     and_then (st_subheader h line_caption) (\<lambda>_.
     and_then (st_line_chart h data) (\<lambda>_.
     and_then (st_subheader h area_caption) (\<lambda>_.
     and_then (st_area_chart h data) (\<lambda>_.
     and_then (st_button h button_label) (\<lambda>pressed.
     if pressed then st_experimental_rerun h else finished))))))))))))))"

text \<open>A render pass: the host runs the script from the top on an empty page.\<close>

definition render_pass ::
  "('a, 'y) host_scheme \<Rightarrow> ('a, 'z) world_scheme \<Rightarrow> ('a, 'z) world_scheme \<times> (stop + unit)" where
  "render_pass h w = app h (w\<lparr>trace := []\<rparr>)"

text \<open>
  The script with the call of line 33 removed: the button is still shown and read, and
  nothing follows it.
\<close>

definition app_without_rerun :: "('a, 'y) host_scheme \<Rightarrow> ('a, 'z, unit) script" where
  "app_without_rerun h =
     and_then (st_title h title_text) (\<lambda>_.
     and_then (st_sidebar_header h sidebar_header_text) (\<lambda>_.
     and_then (st_sidebar_slider h slider_label 0 100 50) (\<lambda>number.
     and_then (st_header h header_text) (\<lambda>_.
     and_then (st_write h (echo_prefix @ str_int number)) (\<lambda>_.
     and_then (np_random_randn h number 3) (\<lambda>drawn.
     and_then (pd_DataFrame h drawn [''A'', ''B'', ''C'']) (\<lambda>data.
     and_then (st_subheader h table_caption) (\<lambda>_.
     and_then (st_dataframe h data) (\<lambda>_.
     and_then (st_subheader h line_caption) (\<lambda>_.
     and_then (st_line_chart h data) (\<lambda>_.
     and_then (st_subheader h area_caption) (\<lambda>_.
     and_then (st_area_chart h data) (\<lambda>_.
     and_then (st_button h button_label) (\<lambda>pressed.
     if pressed then finished else finished))))))))))))))"

subsection \<open>Reading a trace\<close>

text \<open>
  The calls that put an element on the page; the random draw, the construction of the
  table and the re-run request put none.
\<close>

fun is_element :: "'a call \<Rightarrow> bool" where
  "is_element (Randn d0 d1) = False"
| "is_element (DataFrame a cols) = False"
| "is_element ExperimentalRerun = False"
| "is_element _ = True"

definition page :: "('a, 'z) world_scheme \<Rightarrow> 'a call list" where
  "page w = filter is_element (trace w)"

text \<open>The table a call constructs, and the table a call displays.\<close>

fun generated :: "'a call \<Rightarrow> 'a frame option" where
  "generated (DataFrame a cols) = Some (make_frame a cols)"
| "generated _ = None"

fun shown :: "'a call \<Rightarrow> 'a frame option" where
  "shown (Dataframe d) = Some d"
| "shown (LineChart d) = Some d"
| "shown (AreaChart d) = Some d"
| "shown _ = None"

fun is_write :: "'a call \<Rightarrow> bool" where
  "is_write (Write body) = True"
| "is_write _ = False"

text \<open>
  The step of the renderer's contract (1 to 8) a call belongs to. A caption belongs to
  the step of the display it stands above; the re-run request is no display or
  generation step.
\<close>

fun step_of :: "'a call \<Rightarrow> nat option" where
  "step_of (Title body) = Some 1"
| "step_of (SidebarHeader body) = Some 2"
| "step_of (SidebarSlider label lo hi dflt) = Some 2"
| "step_of (Header body) = Some 3"
| "step_of (Write body) = Some 3"
| "step_of (Randn d0 d1) = Some 4"
| "step_of (DataFrame a cols) = Some 4"
| "step_of (Subheader body) =
     (if body = table_caption then Some 5
      else if body = line_caption then Some 6
      else if body = area_caption then Some 7
      else None)"
| "step_of (Dataframe d) = Some 5"
| "step_of (LineChart d) = Some 6"
| "step_of (AreaChart d) = Some 7"
| "step_of (Button label) = Some 8"
| "step_of ExperimentalRerun = None"

text \<open>The number a string of decimal digits stands for.\<close>

definition decimal_value :: "string \<Rightarrow> nat" where
  "decimal_value ds = foldl (\<lambda>acc c. 10 * acc + (of_char c - 48)) 0 ds"

subsection \<open>The script as a list of calls\<close>

text \<open>
  The calls of lines 6 to 32 in the order of the source, with the arguments the script
  computes for them, and line 33 after them when the button was clicked.
\<close>

definition sample_table :: "('a, 'y) host_scheme \<Rightarrow> 'a frame" where
  "sample_table h = make_frame (randn_array h (slider_value h 50) 3) [''A'', ''B'', ''C'']"

definition display_calls :: "('a, 'y) host_scheme \<Rightarrow> 'a call list" where
  "display_calls h =
     [Title title_text,
      SidebarHeader sidebar_header_text,
      SidebarSlider slider_label 0 100 50,
      Header header_text,
      Write (echo_prefix @ str_int (slider_value h 50)),
      Randn (slider_value h 50) 3,
      DataFrame (randn_array h (slider_value h 50) 3) [''A'', ''B'', ''C''],
      Subheader table_caption,
      Dataframe (sample_table h),
      Subheader line_caption,
      LineChart (sample_table h),
      Subheader area_caption,
      AreaChart (sample_table h),
      Button button_label]"

definition script_calls :: "('a, 'y) host_scheme \<Rightarrow> 'a call list" where
  "script_calls h = display_calls h @ (if clicked h then [ExperimentalRerun] else [])"

text \<open>
  Performing a list of calls in order: the first call that raises ends the pass with
  its exception, and so does the re-run request once it is recorded.
\<close>

fun perform ::
  "('a, 'y) host_scheme \<Rightarrow> 'a call list \<Rightarrow> ('a, 'z) world_scheme \<Rightarrow>
     ('a, 'z) world_scheme \<times> (stop + unit)" where
  "perform h [] w = (w, Inr ())"
| "perform h (c # cs) w =
     (case raises h c of
        Some e \<Rightarrow> (w, Inl (Raise e))
      | None \<Rightarrow>
          if c = ExperimentalRerun then (record_call c w, Inl Rerun)
          else perform h cs (record_call c w))"

subsection \<open>A host and a world to run the script on\<close>

text \<open>
  A host that fails no call: the slider is at \<open>s\<close> (or untouched), the button is
  clicked or not, and cell \<open>(i, j)\<close> of the draw is \<open>3 i + j\<close>.
\<close>

definition quiet_host :: "int option \<Rightarrow> bool \<Rightarrow> int host" where
  "quiet_host s b =
     \<lparr>selected = s, clicked = b, normal = (\<lambda>i j. int (3 * i + j)), fault = (\<lambda>c. None)\<rparr>"

text \<open>The same host, except that the line chart fails.\<close>

definition chart_failing_host :: "int host" where
  "chart_failing_host =
     \<lparr>selected = Some 1, clicked = True, normal = (\<lambda>i j. int (3 * i + j)),
      fault = (\<lambda>c. case c of LineChart d \<Rightarrow> Some (HostError ''chart'') | _ \<Rightarrow> None)\<rparr>"

definition blank_world :: "int world" where
  "blank_world = \<lparr>trace = [], session_state = Map.empty\<rparr>"

section \<open>The script performs its calls in order\<close>

lemma app_perform: "app h w = perform h (script_calls h) w"
  unfolding app_def script_calls_def display_calls_def sample_table_def and_then_def invoke_def
    st_title_def st_sidebar_header_def st_sidebar_slider_def st_header_def st_write_def
    st_subheader_def np_random_randn_def pd_DataFrame_def st_dataframe_def st_line_chart_def
    st_area_chart_def st_button_def st_experimental_rerun_def finished_def
  by (simp split: option.splits)

lemma app_without_rerun_perform: "app_without_rerun h w = perform h (display_calls h) w"
  unfolding app_without_rerun_def display_calls_def sample_table_def and_then_def invoke_def
    st_title_def st_sidebar_header_def st_sidebar_slider_def st_header_def st_write_def
    st_subheader_def np_random_randn_def pd_DataFrame_def st_dataframe_def st_line_chart_def
    st_area_chart_def st_button_def finished_def
  by (simp split: option.splits)

lemma perform_append:
  "\<forall>c\<in>set cs. raises h c = None \<and> c \<noteq> ExperimentalRerun \<Longrightarrow>
   perform h (cs @ ds) w = perform h ds (w\<lparr>trace := trace w @ cs\<rparr>)"
  by (induction cs arbitrary: w) (simp_all add: record_call_def)

lemma perform_all:
  "\<forall>c\<in>set cs. raises h c = None \<and> c \<noteq> ExperimentalRerun \<Longrightarrow>
   perform h cs w = (w\<lparr>trace := trace w @ cs\<rparr>, Inr ())"
  using perform_append [of cs h "[]" w] by simp

lemma perform_trace_prefix:
  "\<exists>ds. trace (fst (perform h cs w)) = trace w @ ds \<and> prefix ds cs"
proof (induction cs arbitrary: w)
  case Nil
  then show ?case by simp
next
  case (Cons c cs)
  show ?case
  proof (cases "raises h c")
    case (Some e)
    then show ?thesis by simp
  next
    case None
    show ?thesis
    proof (cases "c = ExperimentalRerun")
      case True
      with None have "trace (fst (perform h (c # cs) w)) = trace w @ [c]"
        by (simp add: record_call_def)
      then show ?thesis by (metis Cons_prefix_Cons Nil_prefix)
    next
      case False
      from Cons.IH [of "record_call c w"] obtain ds where
        ds: "trace (fst (perform h cs (record_call c w))) = trace (record_call c w) @ ds"
          "prefix ds cs" by blast
      with None False have "trace (fst (perform h (c # cs) w)) = trace w @ (c # ds)"
        by (simp add: record_call_def)
      with ds(2) show ?thesis by (metis Cons_prefix_Cons)
    qed
  qed
qed


lemma perform_same_trace:
  "raises h1 = raises h2 \<Longrightarrow> trace w1 = trace w2 \<Longrightarrow>
   trace (fst (perform h1 cs w1)) = trace (fst (perform h2 cs w2)) \<and>
   snd (perform h1 cs w1) = snd (perform h2 cs w2)"
  by (induction cs arbitrary: w1 w2) (simp_all add: record_call_def split: option.splits)

lemma perform_rerun_page:
  "filter is_element (trace (fst (perform h (cs @ [ExperimentalRerun]) w))) =
   filter is_element (trace (fst (perform h cs w)))"
  by (induction cs arbitrary: w) (simp_all add: record_call_def split: option.splits)

lemma perform_raise:
  assumes "\<forall>x\<in>set pre. raises h x = None \<and> x \<noteq> ExperimentalRerun" and "raises h c = Some e"
  shows "perform h (pre @ c # post) w = (w\<lparr>trace := trace w @ pre\<rparr>, Inl (Raise e))"
  using assms by (simp add: perform_append)

lemma rerun_not_display: "ExperimentalRerun \<notin> set (display_calls h)"
  by (simp add: display_calls_def)

lemma display_calls_valid:
  "0 \<le> slider_value h 50 \<Longrightarrow> \<forall>c\<in>set (display_calls h). validate c = None"
  by (simp add: display_calls_def randn_array_def)

lemma render_pass_faultless:
  assumes "fault h = (\<lambda>c. None)" and "0 \<le> slider_value h 50"
  shows "render_pass h w =
    (w\<lparr>trace := script_calls h\<rparr>, if clicked h then Inl Rerun else Inr ())"
proof -
  have ok: "\<forall>c\<in>set (display_calls h). raises h c = None \<and> c \<noteq> ExperimentalRerun"
    using assms display_calls_valid [of h] rerun_not_display [of h]
    by (auto simp: raises_def)
  have r: "raises h ExperimentalRerun = None"
    using assms by (simp add: raises_def)
  show ?thesis
    using perform_append [OF ok, of "if clicked h then [ExperimentalRerun] else []" "w\<lparr>trace := []\<rparr>"] r
    by (simp add: render_pass_def app_perform script_calls_def record_call_def)
qed

lemma decimal_value_str_nat: "decimal_value (str_nat n) = n"
proof (induction n rule: str_nat.induct)
  case (1 n)
  show ?case
  proof (cases "n < 10")
    case True
    then show ?thesis
      by (simp add: str_nat.simps [of n] decimal_value_def digit_char_def)
  next
    case False
    with 1 have "decimal_value (str_nat (n div 10)) = n div 10" by simp
    with False show ?thesis
      by (simp add: str_nat.simps [of n] decimal_value_def digit_char_def)
  qed
qed

lemma faultless_trace:
  assumes "fault h = (\<lambda>c. None)" and "0 \<le> slider_value h 50"
  shows "trace (fst (render_pass h w)) = script_calls h"
  using render_pass_faultless [OF assms, of w] by simp

lemma map_filter_generated_script:
  "List.map_filter generated (script_calls h) = [sample_table h]"
  by (simp add: script_calls_def display_calls_def List.map_filter_simps sample_table_def)

lemma filter_shown_script:
  "filter (\<lambda>c. shown c \<noteq> None) (script_calls h) =
     [Dataframe (sample_table h), LineChart (sample_table h), AreaChart (sample_table h)]"
  by (simp add: script_calls_def display_calls_def)

lemma sample_table_rows:
  "length (rows (sample_table h)) = nat (slider_value h 50) \<and>
   (\<forall>r\<in>set (rows (sample_table h)). length r = 3) \<and>
   columns (sample_table h) = [''A'', ''B'', ''C''] \<and>
   index (sample_table h) = [0..<nat (slider_value h 50)]"
  by (auto simp: sample_table_def make_frame_def randn_array_def)

section \<open>The claims\<close>

text \<open>
  C1. On a host that fails no call, with the slider at \<open>N\<close> between 0 and 100, the pass
  constructs exactly one table; it has \<open>N\<close> rows of three cells each under the column
  labels A, B, C; and the tables handed to the data grid, the line chart and the area
  chart, in this order, are that same table.
\<close>

theorem table_shape_and_displays:
  assumes "fault h = (\<lambda>c. None)" and "slider_value h 50 = N" and "0 \<le> N" and "N \<le> 100"
  shows "\<exists>data.
     List.map_filter generated (trace (fst (render_pass h w))) = [data] \<and>
     length (rows data) = nat N \<and>
     (\<forall>r\<in>set (rows data). length r = 3) \<and>
     columns data = [''A'', ''B'', ''C''] \<and>
     filter (\<lambda>c. shown c \<noteq> None) (trace (fst (render_pass h w))) =
       [Dataframe data, LineChart data, AreaChart data]"
proof -
  have tr: "trace (fst (render_pass h w)) = script_calls h"
    using assms by (simp add: faultless_trace)
  show ?thesis
    unfolding tr map_filter_generated_script filter_shown_script
    using sample_table_rows [of h] assms(2) by simp
qed

theorem table_shape_and_displays_witness:
  "fault (quiet_host (Some 37) False) = (\<lambda>c. None) \<and>
   slider_value (quiet_host (Some 37) False) 50 = 37 \<and>
   (\<exists>data.
     List.map_filter generated
       (trace (fst (render_pass (quiet_host (Some 37) False) blank_world))) = [data] \<and>
     length (rows data) = 37 \<and>
     (\<forall>r\<in>set (rows data). length r = 3) \<and>
     columns data = [''A'', ''B'', ''C''] \<and>
     filter (\<lambda>c. shown c \<noteq> None)
       (trace (fst (render_pass (quiet_host (Some 37) False) blank_world))) =
       [Dataframe data, LineChart data, AreaChart data])"
  using table_shape_and_displays [of "quiet_host (Some 37) False" 37 blank_world]
  by (simp add: quiet_host_def slider_value_def)

lemma decimal_value_str_int: "0 \<le> i \<Longrightarrow> decimal_value (str_int i) = nat i"
  by (simp add: str_int_def decimal_value_str_nat)

lemma filter_is_write_script:
  "filter is_write (script_calls h) = [Write (echo_prefix @ str_int (slider_value h 50))]"
  by (simp add: script_calls_def display_calls_def)

text \<open>
  C2. The slider is created with minimum 0, maximum 100 and value 50. On a host that
  fails no call and whose user has not touched the slider, the slider returns 50, the
  draw is asked for 50 rows of 3, and the one table constructed has 50 rows.
\<close>

theorem default_slider_pass:
  assumes "fault h = (\<lambda>c. None)" and "selected h = None"
  shows "snd (st_sidebar_slider h slider_label 0 100 50 w) = Inr 50 \<and>
     SidebarSlider slider_label 0 100 50 \<in> set (trace (fst (render_pass h w))) \<and>
     Randn 50 3 \<in> set (trace (fst (render_pass h w))) \<and>
     (\<exists>data. List.map_filter generated (trace (fst (render_pass h w))) = [data] \<and>
        length (rows data) = 50)"
proof -
  have n: "slider_value h 50 = 50"
    using assms(2) by (simp add: slider_value_def)
  have tr: "trace (fst (render_pass h w)) = script_calls h"
    using assms(1) n by (simp add: faultless_trace)
  have s: "snd (st_sidebar_slider h slider_label 0 100 50 w) = Inr 50"
    using assms(1) n by (simp add: st_sidebar_slider_def invoke_def raises_def)
  have c: "SidebarSlider slider_label 0 100 50 \<in> set (script_calls h) \<and>
      Randn 50 3 \<in> set (script_calls h)"
    using n by (simp add: script_calls_def display_calls_def)
  show ?thesis
    unfolding tr map_filter_generated_script
    using s c sample_table_rows [of h] n by simp
qed

theorem default_slider_pass_witness:
  "fault (quiet_host None False) = (\<lambda>c. None) \<and> selected (quiet_host None False) = None \<and>
   snd (st_sidebar_slider (quiet_host None False) slider_label 0 100 50 blank_world) = Inr 50 \<and>
   Randn 50 3 \<in> set (trace (fst (render_pass (quiet_host None False) blank_world))) \<and>
   (\<exists>data. List.map_filter generated
        (trace (fst (render_pass (quiet_host None False) blank_world))) = [data] \<and>
      length (rows data) = 50)"
  using default_slider_pass [of "quiet_host None False" blank_world]
  by (simp add: quiet_host_def)

text \<open>
  C3. On a host that fails no call, with the slider at \<open>N\<close> between 0 and 100, the pass
  writes exactly one text; the decimal digits of \<open>N\<close> occur in it as a contiguous run,
  and read as a number they give \<open>N\<close> back.
\<close>

theorem echo_text_shows_number:
  assumes "fault h = (\<lambda>c. None)" and "slider_value h 50 = N" and "0 \<le> N" and "N \<le> 100"
  shows "\<exists>body. filter is_write (trace (fst (render_pass h w))) = [Write body] \<and>
     sublist (str_int N) body \<and> decimal_value (str_int N) = nat N"
proof -
  have tr: "trace (fst (render_pass h w)) = script_calls h"
    using assms by (simp add: faultless_trace)
  have "sublist (str_int N) (echo_prefix @ str_int N)"
    by (rule suffix_imp_sublist) (simp add: suffix_def)
  then show ?thesis
    unfolding tr filter_is_write_script
    using assms(2,3) by (simp add: decimal_value_str_int)
qed

theorem echo_text_shows_number_witness:
  "fault (quiet_host (Some 37) False) = (\<lambda>c. None) \<and>
   slider_value (quiet_host (Some 37) False) 50 = 37 \<and>
   (\<exists>body. filter is_write (trace (fst (render_pass (quiet_host (Some 37) False) blank_world))) =
       [Write body] \<and>
     sublist ''37'' body \<and> decimal_value ''37'' = 37)"
proof -
  have s: "str_int 37 = ''37''" by code_simp
  show ?thesis
    using echo_text_shows_number [of "quiet_host (Some 37) False" 37 blank_world]
    by (simp add: quiet_host_def slider_value_def s)
qed



lemma render_pass_perform:
  "render_pass h w = perform h (script_calls h) (w\<lparr>trace := []\<rparr>)"
  by (simp add: render_pass_def app_perform)

lemma render_pass_trace_prefix: "prefix (trace (fst (render_pass h w))) (script_calls h)"
  using perform_trace_prefix [of h "script_calls h" "w\<lparr>trace := []\<rparr>"]
  by (auto simp: render_pass_perform)

lemma map_filter_append:
  "List.map_filter f (xs @ ys) = List.map_filter f xs @ List.map_filter f ys"
  by (simp add: List.map_filter_def)

lemma steps_of_script:
  "List.map_filter step_of (script_calls h) = [1, 2, 2, 3, 3, 4, 4, 5, 5, 6, 6, 7, 7, 8]"
  by (simp add: script_calls_def display_calls_def List.map_filter_simps
      table_caption_def line_caption_def area_caption_def)

lemma no_step_of_script:
  "filter (\<lambda>c. step_of c = None) (script_calls h) =
     (if clicked h then [ExperimentalRerun] else [])"
  by (simp add: script_calls_def display_calls_def
      table_caption_def line_caption_def area_caption_def)

text \<open>
  C5. In every pass, whatever the host does, the steps of the calls performed, read off
  the trace, are an initial part of 1, 2, 2, 3, 3, 4, 4, 5, 5, 6, 6, 7, 7, 8: title;
  sidebar header and slider; header and echo text; draw and table; caption and data
  grid; caption and line chart; caption and area chart; button. On a host that fails no
  call, with a slider value that is not negative, they are all of it, and the only call
  outside the eight steps is the re-run request of a clicked button.
\<close>

theorem steps_in_order:
  "prefix (List.map_filter step_of (trace (fst (render_pass h w))))
     [1, 2, 2, 3, 3, 4, 4, 5, 5, 6, 6, 7, 7, 8] \<and>
   (fault h = (\<lambda>c. None) \<and> 0 \<le> slider_value h 50 \<longrightarrow>
     List.map_filter step_of (trace (fst (render_pass h w))) =
       [1, 2, 2, 3, 3, 4, 4, 5, 5, 6, 6, 7, 7, 8] \<and>
     filter (\<lambda>c. step_of c = None) (trace (fst (render_pass h w))) =
       (if clicked h then [ExperimentalRerun] else []))"
proof -
  obtain rest where rest: "script_calls h = trace (fst (render_pass h w)) @ rest"
    using render_pass_trace_prefix [of h w] by (auto simp: prefix_def)
  have "List.map_filter step_of (script_calls h) =
      List.map_filter step_of (trace (fst (render_pass h w))) @ List.map_filter step_of rest"
    by (subst rest) (rule map_filter_append)
  then have p: "prefix (List.map_filter step_of (trace (fst (render_pass h w))))
      [1, 2, 2, 3, 3, 4, 4, 5, 5, 6, 6, 7, 7, 8]"
    unfolding steps_of_script by (metis prefixI)
  have "List.map_filter step_of (trace (fst (render_pass h w))) =
       [1, 2, 2, 3, 3, 4, 4, 5, 5, 6, 6, 7, 7, 8] \<and>
     filter (\<lambda>c. step_of c = None) (trace (fst (render_pass h w))) =
       (if clicked h then [ExperimentalRerun] else [])"
    if "fault h = (\<lambda>c. None)" and "0 \<le> slider_value h 50"
    using that by (simp only: faultless_trace steps_of_script no_step_of_script)
  with p show ?thesis by blast
qed

theorem steps_in_order_witness:
  "fault (quiet_host (Some 2) True) = (\<lambda>c. None) \<and>
   0 \<le> slider_value (quiet_host (Some 2) True) 50 \<and>
   List.map_filter step_of (trace (fst (render_pass (quiet_host (Some 2) True) blank_world))) =
     [1, 2, 2, 3, 3, 4, 4, 5, 5, 6, 6, 7, 7, 8] \<and>
   filter (\<lambda>c. step_of c = None) (trace (fst (render_pass (quiet_host (Some 2) True) blank_world))) =
     [ExperimentalRerun]"
  using steps_in_order [of "quiet_host (Some 2) True" blank_world]
  by (simp add: quiet_host_def slider_value_def)

text \<open>
  C6. For every host (slider value, draw, button state, failing calls) and every
  starting world, the script and the script without the re-run call put the same
  sequence of elements on the page. The two passes differ in one thing only, which is
  no element: with the button clicked, the first ends with the re-run request.
\<close>

theorem rerun_call_not_on_page:
  "page (fst (app h w)) = page (fst (app_without_rerun h w))"
proof (cases "clicked h")
  case True
  then show ?thesis
    by (simp add: page_def app_perform app_without_rerun_perform script_calls_def
        perform_rerun_page)
next
  case False
  then show ?thesis
    by (simp add: page_def app_perform app_without_rerun_perform script_calls_def)
qed

theorem rerun_call_not_on_page_witness:
  "page (fst (app (quiet_host (Some 2) True) blank_world)) =
     page (fst (app_without_rerun (quiet_host (Some 2) True) blank_world)) \<and>
   snd (app (quiet_host (Some 2) True) blank_world) = Inl Rerun \<and>
   snd (app_without_rerun (quiet_host (Some 2) True) blank_world) = Inr ()"
proof -
  have a: "snd (app (quiet_host (Some 2) True) blank_world) = Inl Rerun"
    using render_pass_faultless [of "quiet_host (Some 2) True" blank_world]
    by (simp add: render_pass_def quiet_host_def slider_value_def blank_world_def)
  have b: "snd (app_without_rerun (quiet_host (Some 2) True) blank_world) = Inr ()"
    by (simp add: app_without_rerun_perform display_calls_def quiet_host_def slider_value_def
        raises_def record_call_def randn_array_def)
  from rerun_call_not_on_page [of "quiet_host (Some 2) True" blank_world] a b
  show ?thesis by simp
qed

text \<open>
  C7. Whichever call of the script is the first to raise, be it a failure of the host
  (a display or the random source) or the refusal of an argument, the pass ends there
  with that exception as its outcome: the calls before it are on the trace, the failed
  call is not tried again, and no later call is made.
\<close>

theorem exceptions_propagate:
  assumes "script_calls h = pre @ c # post"
    and "\<forall>x\<in>set pre. raises h x = None"
    and "raises h c = Some e"
  shows "render_pass h w = (w\<lparr>trace := pre\<rparr>, Inl (Raise e))"
proof -
  have len: "length pre < length (script_calls h)"
    by (simp add: assms(1))
  have "pre = take (length pre) (script_calls h)"
    by (simp add: assms(1))
  also have "\<dots> = take (length pre) (display_calls h)"
    using len by (simp add: script_calls_def split: if_splits)
  finally have "set pre \<subseteq> set (display_calls h)"
    by (metis set_take_subset)
  then have "\<forall>x\<in>set pre. raises h x = None \<and> x \<noteq> ExperimentalRerun"
    using assms(2) rerun_not_display [of h] by auto
  from perform_raise [OF this assms(3), of post "w\<lparr>trace := []\<rparr>"]
  show ?thesis by (simp add: render_pass_perform assms(1))
qed

theorem exceptions_propagate_witness:
  "script_calls chart_failing_host =
     take 10 (script_calls chart_failing_host) @
     LineChart (sample_table chart_failing_host) # drop 11 (script_calls chart_failing_host) \<and>
   list_all (\<lambda>x. raises chart_failing_host x = None)
     (take 10 (script_calls chart_failing_host)) \<and>
   raises chart_failing_host (LineChart (sample_table chart_failing_host)) =
     Some (HostError ''chart'') \<and>
   render_pass chart_failing_host blank_world =
     (blank_world\<lparr>trace := take 10 (script_calls chart_failing_host)\<rparr>,
      Inl (Raise (HostError ''chart'')))"
proof -
  have 1: "script_calls chart_failing_host =
     take 10 (script_calls chart_failing_host) @
     LineChart (sample_table chart_failing_host) # drop 11 (script_calls chart_failing_host)"
    by (simp add: script_calls_def display_calls_def chart_failing_host_def)
  have 2: "\<forall>x\<in>set (take 10 (script_calls chart_failing_host)).
      raises chart_failing_host x = None"
    by (simp add: script_calls_def display_calls_def chart_failing_host_def raises_def
        slider_value_def randn_array_def)
  have 3: "raises chart_failing_host (LineChart (sample_table chart_failing_host)) =
      Some (HostError ''chart'')"
    by (simp add: chart_failing_host_def raises_def)
  from exceptions_propagate [OF 1 2 3, of blank_world] 1 2 3 show ?thesis
    by (simp add: list_all_iff)
qed

text \<open>
  A slider value below zero, which the widget does not hand out, would end the pass at
  the draw with the \<^verbatim>\<open>ValueError\<close> of \<^verbatim>\<open>randn\<close>, after the echo text.
\<close>

lemma negative_number_raises:
  "render_pass (quiet_host (Some (- 1)) False) blank_world =
     (blank_world\<lparr>trace := take 5 (script_calls (quiet_host (Some (- 1)) False))\<rparr>,
      Inl (Raise ValueError))"
  by (simp add: render_pass_perform script_calls_def display_calls_def quiet_host_def
      slider_value_def raises_def record_call_def blank_world_def)



lemma raises_cong:
  "fault h1 = fault h2 \<Longrightarrow> raises h1 = raises h2"
  by (rule ext) (simp add: raises_def split: option.splits)

lemma randn_array_cong:
  assumes "\<forall>i<nat d0. \<forall>j<nat d1. normal h1 i j = normal h2 i j"
  shows "randn_array h1 d0 d1 = randn_array h2 d0 d1"
  using assms by (simp add: randn_array_def)

lemma page_render_pass:
  "page (fst (render_pass h w)) =
     filter is_element (trace (fst (perform h (display_calls h) (w\<lparr>trace := []\<rparr>))))"
  by (simp add: page_def render_pass_perform script_calls_def perform_rerun_page)

text \<open>
  C9. Two passes whose hosts agree on the slider value, on the cells of the draw (the
  \<open>N\<close> rows of three) and on which calls fail show the same page, whatever the two
  button states and the two starting worlds are. Taking the same host twice but for the
  button: the button state changes no element of the page.
\<close>

theorem page_determined_by_slider_and_draw:
  assumes "slider_value h1 50 = slider_value h2 50"
    and "\<forall>i<nat (slider_value h1 50). \<forall>j<3. normal h1 i j = normal h2 i j"
    and "fault h1 = fault h2"
  shows "page (fst (render_pass h1 w1)) = page (fst (render_pass h2 w2))"
proof -
  have a: "randn_array h1 (slider_value h1 50) 3 = randn_array h2 (slider_value h2 50) 3"
    using assms(1,2) randn_array_cong [of "slider_value h1 50" 3 h1 h2] by simp
  have d: "display_calls h1 = display_calls h2"
    using a assms(1) by (simp add: display_calls_def sample_table_def)
  have "trace (fst (perform h1 (display_calls h1) (w1\<lparr>trace := []\<rparr>))) =
      trace (fst (perform h2 (display_calls h1) (w2\<lparr>trace := []\<rparr>)))"
    using perform_same_trace [OF raises_cong [OF assms(3)], of "w1\<lparr>trace := []\<rparr>" "w2\<lparr>trace := []\<rparr>"]
    by simp
  then show ?thesis
    by (simp add: page_render_pass d)
qed

theorem page_determined_by_slider_and_draw_witness:
  "slider_value (quiet_host (Some 2) True) 50 =
     slider_value ((quiet_host (Some 2) False)\<lparr>normal := (\<lambda>i j. if i < 2 then int (3 * i + j) else 7)\<rparr>) 50 \<and>
   normal (quiet_host (Some 2) True) 2 0 \<noteq>
     normal ((quiet_host (Some 2) False)\<lparr>normal := (\<lambda>i j. if i < 2 then int (3 * i + j) else 7)\<rparr>) 2 0 \<and>
   page (fst (render_pass (quiet_host (Some 2) True) blank_world)) =
   page (fst (render_pass
     ((quiet_host (Some 2) False)\<lparr>normal := (\<lambda>i j. if i < 2 then int (3 * i + j) else 7)\<rparr>)
     blank_world))"
  using page_determined_by_slider_and_draw [of "quiet_host (Some 2) True"
      "(quiet_host (Some 2) False)\<lparr>normal := (\<lambda>i j. if i < 2 then int (3 * i + j) else 7)\<rparr>"
      blank_world blank_world]
  by (simp add: quiet_host_def slider_value_def)

lemma perform_Inr:
  "snd (perform h cs w) = Inr () \<Longrightarrow> \<forall>c\<in>set cs. raises h c = None \<and> c \<noteq> ExperimentalRerun"
  by (induction cs arbitrary: w) (auto split: option.splits if_splits)

lemma perform_stops:
  "snd (perform h cs w) \<noteq> Inr () \<Longrightarrow> perform h (cs @ ds) w = perform h cs w"
  by (induction cs arbitrary: w) (auto split: option.splits if_splits)

lemma perform_no_rerun:
  "ExperimentalRerun \<notin> set cs \<Longrightarrow> snd (perform h cs w) \<noteq> Inl Rerun"
  by (induction cs arbitrary: w) (auto split: option.splits if_splits)

text \<open>
  C10. In every pass and on every host: if the re-run request is on the trace, or if
  the pass ends with the re-run request, then the trace is the fourteen calls of lines
  6 to 32 (title, sidebar header, slider, header, echo text, draw, table, the three
  captions with the data grid and the two charts, button), all completed, followed by
  the re-run request as its last entry.
\<close>

theorem rerun_after_all_displays:
  "(ExperimentalRerun \<in> set (trace (fst (render_pass h w))) \<or> snd (render_pass h w) = Inl Rerun) \<longrightarrow>
   trace (fst (render_pass h w)) = display_calls h @ [ExperimentalRerun] \<and>
   snd (render_pass h w) = Inl Rerun \<and> clicked h"
proof (cases "snd (perform h (display_calls h) (w\<lparr>trace := []\<rparr>)) = Inr ()")
  case True
  then have ok: "\<forall>c\<in>set (display_calls h). raises h c = None \<and> c \<noteq> ExperimentalRerun"
    by (rule perform_Inr)
  have "render_pass h w =
      perform h (if clicked h then [ExperimentalRerun] else []) (w\<lparr>trace := display_calls h\<rparr>)"
    using perform_append [OF ok, of "if clicked h then [ExperimentalRerun] else []" "w\<lparr>trace := []\<rparr>"]
    by (simp add: render_pass_perform script_calls_def)
  then show ?thesis
    using rerun_not_display [of h]
    by (auto simp: record_call_def split: option.splits if_splits)
next
  case False
  then have "render_pass h w = perform h (display_calls h) (w\<lparr>trace := []\<rparr>)"
    by (simp add: render_pass_perform script_calls_def perform_stops)
  moreover have "ExperimentalRerun \<notin> set (trace (fst (perform h (display_calls h) (w\<lparr>trace := []\<rparr>))))"
    using perform_trace_prefix [of h "display_calls h" "w\<lparr>trace := []\<rparr>"] rerun_not_display [of h]
    by (auto dest: set_mono_prefix)
  moreover have "snd (perform h (display_calls h) (w\<lparr>trace := []\<rparr>)) \<noteq> Inl Rerun"
    using rerun_not_display [of h] by (rule perform_no_rerun)
  ultimately show ?thesis by simp
qed

theorem rerun_after_all_displays_witness:
  "ExperimentalRerun \<in> set (trace (fst (render_pass (quiet_host (Some 2) True) blank_world))) \<and>
   trace (fst (render_pass (quiet_host (Some 2) True) blank_world)) =
     display_calls (quiet_host (Some 2) True) @ [ExperimentalRerun] \<and>
   snd (render_pass (quiet_host (Some 2) True) blank_world) = Inl Rerun"
proof -
  have "ExperimentalRerun \<in> set (trace (fst (render_pass (quiet_host (Some 2) True) blank_world)))"
    by (simp add: faultless_trace quiet_host_def slider_value_def script_calls_def)
  with rerun_after_all_displays [of "quiet_host (Some 2) True" blank_world] show ?thesis
    by blast
qed

end
